theory Spec2Isabelle
  imports Main
begin

section \<open>JavaScript values handled by the create handler\<close>

text \<open>
  The handler of \<^verbatim>\<open>src/handlers/create.js\<close> works on untyped JavaScript values: the
  Lambda event, the payload decoded by \<^verbatim>\<open>JSON.parse\<close>, the item written to DynamoDB and
  the object literals given to \<^verbatim>\<open>JSON.stringify\<close>. They are JSON values plus
  \<^verbatim>\<open>undefined\<close> (the result of reading a property that is not there). Numbers are IEEE
  doubles in the source; the model keeps their type abstract (\<open>'n\<close>) and takes the few
  operations on them from the engine below. An object is an association list of its own
  properties (the first binding of a name is the property's value).
\<close>

datatype 'n jv =
    JUndefined
  | JNull
  | JBool bool
  | JNum 'n
  | JStr string
  | JArr "'n jv list"
  | JObj "(string \<times> 'n jv) list"

text \<open>A thrown JavaScript \<^verbatim>\<open>Error\<close>: the two properties the outermost catch reads.\<close>

record js_error =
  err_msg :: string
  err_stack :: string

text \<open>
  The language runtime: what \<^verbatim>\<open>ToBoolean\<close> and \<^verbatim>\<open>ToString\<close> do on a number,
  \<^verbatim>\<open>JSON.parse\<close> (\<open>None\<close> is its \<^verbatim>\<open>SyntaxError\<close>), \<^verbatim>\<open>JSON.stringify\<close>, whether
  \<^verbatim>\<open>Date.parse\<close> of a string and the time value of a number are valid dates, and the
  \<^verbatim>\<open>TypeError\<close>s raised by reading a property of \<^verbatim>\<open>null\<close> or \<^verbatim>\<open>undefined\<close> and by
  converting to a primitive an object that cannot be converted.
\<close>

record 'n engine =
  num_truthy :: "'n \<Rightarrow> bool"
  num_to_string :: "'n \<Rightarrow> string"
  json_parse :: "string \<Rightarrow> 'n jv option"
  json_stringify :: "'n jv \<Rightarrow> string"
  date_parse_ok :: "string \<Rightarrow> bool"
  time_value_ok :: "'n \<Rightarrow> bool"
  null_read_error :: "'n jv \<Rightarrow> string \<Rightarrow> js_error"
  to_primitive_error :: "'n jv \<Rightarrow> js_error"

text \<open>\<^verbatim>\<open>!v\<close> is \<open>\<not> truthy eng v\<close>: arrays and objects are truthy, also when empty.\<close>

fun truthy :: "'n engine \<Rightarrow> 'n jv \<Rightarrow> bool" where
  "truthy eng JUndefined = False"
| "truthy eng JNull = False"
| "truthy eng (JBool b) = b"
| "truthy eng (JNum n) = num_truthy eng n"
| "truthy eng (JStr s) = (s \<noteq> [])"
| "truthy eng (JArr xs) = True"
| "truthy eng (JObj kvs) = True"

text \<open>
  \<^verbatim>\<open>ToString\<close>, as the template literal, \<^verbatim>\<open>new Date\<close> and \<^verbatim>\<open>JSON.parse\<close> apply it to
  a value that is no string. An array joins its elements with commas, converting them
  from left to right (\<^verbatim>\<open>null\<close> and \<^verbatim>\<open>undefined\<close> elements give the empty string). An
  object is converted by its \<^verbatim>\<open>toString\<close> method: a plain object inherits the one that
  gives \<^verbatim>\<open>[object Object]\<close>, but an own property named \<^verbatim>\<open>toString\<close> shadows it, and no
  JSON value is callable; \<^verbatim>\<open>valueOf\<close>, own or inherited, gives no primitive either, so
  the conversion throws a \<^verbatim>\<open>TypeError\<close>. The first throw ends the conversion.
\<close>

fun to_string :: "'n engine \<Rightarrow> 'n jv \<Rightarrow> js_error + string"
  and join_elements :: "'n engine \<Rightarrow> 'n jv list \<Rightarrow> js_error + string" where
  "to_string eng JUndefined = Inr ''undefined''"
| "to_string eng JNull = Inr ''null''"
| "to_string eng (JBool b) = Inr (if b then ''true'' else ''false'')"
| "to_string eng (JNum n) = Inr (num_to_string eng n)"
| "to_string eng (JStr s) = Inr s"
| "to_string eng (JArr xs) = join_elements eng xs"
| "to_string eng (JObj kvs) =
     (if map_of kvs ''toString'' \<noteq> None then Inl (to_primitive_error eng (JObj kvs))
      else Inr ''[object Object]'')"
| "join_elements eng [] = Inr []"
| "join_elements eng (x # xs) =
     (case (if x = JNull \<or> x = JUndefined then Inr [] else to_string eng x) of
        Inl e \<Rightarrow> Inl e
      | Inr s \<Rightarrow>
          if xs = [] then Inr s
          else (case join_elements eng xs of Inl e \<Rightarrow> Inl e | Inr t \<Rightarrow> Inr (s @ '','' @ t)))"

text \<open>An own property of an object; every other value has none of the names the handler reads.\<close>

fun attr :: "'n jv \<Rightarrow> string \<Rightarrow> 'n jv" where
  "attr (JObj kvs) p = (case map_of kvs p of Some v \<Rightarrow> v | None \<Rightarrow> JUndefined)"
| "attr v p = JUndefined"

text \<open>
  \<^verbatim>\<open>v[p]\<close> and \<^verbatim>\<open>v.p\<close> for the property names the handler reads (\<^verbatim>\<open>body\<close> and the five
  required fields, none of which is a built-in property of a string, array, number or
  boolean): reading a property of \<^verbatim>\<open>null\<close> or \<^verbatim>\<open>undefined\<close> throws.
\<close>

fun get_prop :: "'n engine \<Rightarrow> 'n jv \<Rightarrow> string \<Rightarrow> js_error + 'n jv" where
  "get_prop eng JUndefined p = Inl (null_read_error eng JUndefined p)"
| "get_prop eng JNull p = Inl (null_read_error eng JNull p)"
| "get_prop eng v p = Inr (attr v p)"

text \<open>\<^verbatim>\<open>Array.isArray(v)\<close> and \<^verbatim>\<open>v.length\<close> of an array.\<close>

fun isArray :: "'n jv \<Rightarrow> bool" where
  "isArray (JArr xs) = True"
| "isArray v = False"

fun array_length :: "'n jv \<Rightarrow> nat" where
  "array_length (JArr xs) = length xs"
| "array_length v = 0"

text \<open>
  \<^verbatim>\<open>new Date(v)\<close> and \<^verbatim>\<open>!isNaN(date.getTime())\<close>: a string is parsed, a number is a time
  value, a boolean or \<^verbatim>\<open>null\<close> converts to the time value 1 or 0, \<^verbatim>\<open>undefined\<close> to NaN,
  and an array or object is first converted to a primitive, which is its string or a
  throw, as for \<open>to_string\<close>.
\<close>

fun date_valid :: "'n engine \<Rightarrow> 'n jv \<Rightarrow> js_error + bool" where
  "date_valid eng JUndefined = Inr False"
| "date_valid eng JNull = Inr True"
| "date_valid eng (JBool b) = Inr True"
| "date_valid eng (JNum n) = Inr (time_value_ok eng n)"
| "date_valid eng (JStr s) = Inr (date_parse_ok eng s)"
| "date_valid eng v =
     (case to_string eng v of Inl e \<Rightarrow> Inl e | Inr s \<Rightarrow> Inr (date_parse_ok eng s))"

section \<open>The collaborators: table, clock, id generator\<close>

text \<open>
  The rejection value of a failed store call, an error object: its \<^verbatim>\<open>message\<close> and
  \<^verbatim>\<open>code\<close> (\<open>JUndefined\<close> when the object has none).
\<close>

record 'n store_error =
  err_message :: "'n jv"
  err_code :: "'n jv"

text \<open>
  What one invocation is given: \<^verbatim>\<open>TABLE_NAME\<close>, the clock (\<open>clock env k\<close> is what the
  \<open>k\<close>-th \<^verbatim>\<open>new Date().toISOString()\<close> of the invocation returns), the result of
  \<^verbatim>\<open>uuid.v4()\<close> (\<open>Inl\<close> when it throws), whether the store rejects the query or the
  put for a reason of its own (unreachable, throttled, ...), and the rejection it gives
  to an item that does not fit the key schema of the table.
\<close>

record 'n env =
  TABLE_NAME :: string
  clock :: "nat \<Rightarrow> string"
  uuid_v4 :: "js_error + string"
  query_fault :: "'n store_error option"
  put_fault :: "'n store_error option"
  key_schema_error :: "'n jv \<Rightarrow> 'n store_error"

datatype 'n call = Query string | Put "'n jv"

text \<open>
  The state an invocation runs in: the items of the table, the store calls made so far,
  and how often the clock was read.
\<close>

record 'n world =
  items :: "'n jv list"
  calls :: "'n call list"
  clock_reads :: nat

definition read_clock :: "'n env \<Rightarrow> 'n world \<Rightarrow> string \<times> 'n world" where
  "read_clock env w = (clock env (clock_reads w), w\<lparr>clock_reads := Suc (clock_reads w)\<rparr>)"

text \<open>
  \<^verbatim>\<open>dynamoDb.query(getParams).promise()\<close> on the index \<^verbatim>\<open>locationTimeIndex\<close> with the key
  condition \<^verbatim>\<open>locationTimeKey = :locationTimeKey\<close>: the items whose key attribute is that
  string, or the store's rejection.
\<close>

definition dynamoDb_query ::
  "'n env \<Rightarrow> 'n world \<Rightarrow> string \<Rightarrow> ('n store_error + 'n jv list) \<times> 'n world" where
  "dynamoDb_query env w key =
     (let w' = w\<lparr>calls := calls w @ [Query key]\<rparr> in
      case query_fault env of
        Some e \<Rightarrow> (Inl e, w')
      | None \<Rightarrow> (Inr (filter (\<lambda>it. attr it ''locationTimeKey'' = JStr key) (items w)), w'))"

definition conditional_check_failed :: "'n store_error" where
  "conditional_check_failed =
     \<lparr>err_message = JStr ''The conditional request failed'',
      err_code = JStr ''ConditionalCheckFailedException''\<rparr>"

text \<open>
  The document client is configured with \<^verbatim>\<open>convertEmptyValues: true\<close> (line 18): on the
  way to the table every empty string of the item, at any depth, becomes \<^verbatim>\<open>null\<close>. (A
  property bound to \<^verbatim>\<open>undefined\<close> is left out; it reads as \<^verbatim>\<open>undefined\<close> either way.)
\<close>

fun convertEmptyValues :: "'n jv \<Rightarrow> 'n jv" where
  "convertEmptyValues (JStr s) = (if s = [] then JNull else JStr s)"
| "convertEmptyValues (JArr xs) = JArr (map convertEmptyValues xs)"
| "convertEmptyValues (JObj kvs) = JObj (map (\<lambda>(k, v). (k, convertEmptyValues v)) kvs)"
| "convertEmptyValues v = v"

fun isString :: "'n jv \<Rightarrow> bool" where
  "isString (JStr s) = True"
| "isString v = False"

text \<open>
  The key schema of the table (\<^verbatim>\<open>serverless.yml\<close>): the primary key \<^verbatim>\<open>id\<close> is of type S
  and must be there; \<^verbatim>\<open>appointmentTime\<close> and \<^verbatim>\<open>locationTimeKey\<close> are the keys of the two
  indexes, of type S, and an item that has them must have them as strings.
\<close>

definition key_schema_ok :: "'n jv \<Rightarrow> bool" where
  "key_schema_ok stored \<longleftrightarrow>
     isString (attr stored ''id'') \<and>
     (attr stored ''appointmentTime'' = JUndefined \<or> isString (attr stored ''appointmentTime'')) \<and>
     (attr stored ''locationTimeKey'' = JUndefined \<or> isString (attr stored ''locationTimeKey''))"

text \<open>
  Why the store rejects a put, if it does: for a reason of its own, because the converted
  item does not fit the key schema, or because of
  \<^verbatim>\<open>ConditionExpression: 'attribute_not_exists(id)'\<close> when an item with that id is in the
  table.
\<close>

definition put_rejection :: "'n env \<Rightarrow> 'n jv list \<Rightarrow> 'n jv \<Rightarrow> 'n store_error option" where
  "put_rejection env tbl item =
     (case put_fault env of
        Some e \<Rightarrow> Some e
      | None \<Rightarrow>
          if \<not> key_schema_ok (convertEmptyValues item) then Some (key_schema_error env item)
          else if list_ex (\<lambda>it. attr it ''id'' = attr (convertEmptyValues item) ''id'') tbl
          then Some conditional_check_failed
          else None)"

text \<open>
  \<^verbatim>\<open>dynamoDb.put(params).promise()\<close>: a rejected put writes nothing, an accepted one adds
  the converted item.
\<close>

definition dynamoDb_put ::
  "'n env \<Rightarrow> 'n world \<Rightarrow> 'n jv \<Rightarrow> ('n store_error + unit) \<times> 'n world" where
  "dynamoDb_put env w item =
     (let w' = w\<lparr>calls := calls w @ [Put item]\<rparr> in
      case put_rejection env (items w) item of
        Some e \<Rightarrow> (Inl e, w')
      | None \<Rightarrow> (Inr (), w'\<lparr>items := items w @ [convertEmptyValues item]\<rparr>))"

section \<open>The handler\<close>

record 'n response =
  statusCode :: nat
  headers :: "(string \<times> string) list"
  body :: "'n jv"

text \<open>
  Every \<^verbatim>\<open>return\<close> of the handler has the same headers and a body
  \<^verbatim>\<open>JSON.stringify(obj)\<close>; \<open>body\<close> is that object \<open>obj\<close>.
\<close>

definition respond :: "nat \<Rightarrow> (string \<times> 'n jv) list \<Rightarrow> 'n response" where
  "respond st kvs =
     \<lparr>statusCode = st, headers = [(''Content-Type'', ''application/json'')], body = JObj kvs\<rparr>"

text \<open>One step of the handler: it throws, it returns a response, or it goes on.\<close>

datatype ('n, 'a) flow = Throw js_error | Return "'n response" | Next 'a

text \<open>
  Lines 54-68: the payload is the parsed body, or the event itself. \<^verbatim>\<open>JSON.parse\<close> first
  converts its argument to a string; a throw of that conversion is caught by the same
  catch as a syntax error.
\<close>

definition decode :: "'n engine \<Rightarrow> 'n jv \<Rightarrow> ('n, 'n jv) flow" where
  "decode eng event =
     (case get_prop eng event ''body'' of
        Inl e \<Rightarrow> Throw e
      | Inr b \<Rightarrow>
          if truthy eng b then
            (case to_string eng b of
               Inl e \<Rightarrow> Return (respond 400 [(''message'', JStr ''Invalid request body format'')])
             | Inr bodyText \<Rightarrow>
                 (case json_parse eng bodyText of
                    None \<Rightarrow>
                      Return (respond 400 [(''message'', JStr ''Invalid request body format'')])
                  | Some d \<Rightarrow> Next d))
          else Next event)"

definition requiredFields :: "string list" where
  "requiredFields = [''fullName'', ''location'', ''appointmentTime'', ''car'', ''services'']"

text \<open>Lines 72-81: the loop over the required fields, stopping at the first falsy one.\<close>

fun first_missing :: "'n engine \<Rightarrow> 'n jv \<Rightarrow> string list \<Rightarrow> js_error + string option" where
  "first_missing eng data [] = Inr None"
| "first_missing eng data (field # rest) =
     (case get_prop eng data field of
        Inl e \<Rightarrow> Inl e
      | Inr v \<Rightarrow> if \<not> truthy eng v then Inr (Some field) else first_missing eng data rest)"

text \<open>
  Lines 70-102: required fields, then the shape of services, then the date. Once the loop
  has read the five fields without throwing, the payload is neither \<^verbatim>\<open>null\<close> nor
  \<^verbatim>\<open>undefined\<close>, so the later reads \<^verbatim>\<open>data.services\<close>, \<^verbatim>\<open>data.appointmentTime\<close>, ... are
  plain property reads (\<open>attr\<close>).
\<close>

definition validate :: "'n engine \<Rightarrow> 'n jv \<Rightarrow> ('n, unit) flow" where
  "validate eng data =
     (case first_missing eng data requiredFields of
        Inl e \<Rightarrow> Throw e
      | Inr (Some field) \<Rightarrow>
          Return (respond 400 [(''message'', JStr (''Missing required field: '' @ field))])
      | Inr None \<Rightarrow>
          if \<not> isArray (attr data ''services'') \<or> array_length (attr data ''services'') = 0
          then Return (respond 400 [(''message'', JStr ''Services must be a non-empty array'')])
          else
            (case date_valid eng (attr data ''appointmentTime'') of
               Inl e \<Rightarrow> Throw e
             | Inr ok \<Rightarrow>
                 if \<not> ok
                 then Return (respond 400
                        [(''message'', JStr ''Invalid date format for appointmentTime'')])
                 else Next ()))"

text \<open>
  Line 105: the template literal converts the location, then the appointmentTime, to
  strings; either conversion can throw.
\<close>

definition locationTimeKey :: "'n engine \<Rightarrow> 'n jv \<Rightarrow> js_error + string" where
  "locationTimeKey eng data =
     (case to_string eng (attr data ''location'') of
        Inl e \<Rightarrow> Inl e
      | Inr location \<Rightarrow>
          (case to_string eng (attr data ''appointmentTime'') of
             Inl e \<Rightarrow> Inl e
           | Inr appointmentTime \<Rightarrow> Inr (location @ ''#'' @ appointmentTime)))"

definition getParams :: "'n env \<Rightarrow> string \<Rightarrow> 'n jv" where
  "getParams env key =
     JObj [(''TableName'', JStr (TABLE_NAME env)),
           (''IndexName'', JStr ''locationTimeIndex''),
           (''KeyConditionExpression'', JStr ''locationTimeKey = :locationTimeKey''),
           (''ExpressionAttributeValues'', JObj [('':locationTimeKey'', JStr key)])]"

definition make_item :: "'n jv \<Rightarrow> string \<Rightarrow> string \<Rightarrow> string \<Rightarrow> 'n jv" where
  "make_item data appointmentId key timestamp =
     JObj [(''id'', JStr appointmentId),
           (''fullName'', attr data ''fullName''),
           (''location'', attr data ''location''),
           (''appointmentTime'', attr data ''appointmentTime''),
           (''locationTimeKey'', JStr key),
           (''car'', attr data ''car''),
           (''services'', attr data ''services''),
           (''createdAt'', JStr timestamp),
           (''updatedAt'', JStr timestamp)]"

definition putParams :: "'n env \<Rightarrow> 'n jv \<Rightarrow> 'n jv" where
  "putParams env item =
     JObj [(''TableName'', JStr (TABLE_NAME env)),
           (''Item'', item),
           (''ConditionExpression'', JStr ''attribute_not_exists(id)'')]"

text \<open>Lines 152-205: build the item, put it, and answer 200 or the put's failure.\<close>

definition write_appointment ::
  "'n engine \<Rightarrow> 'n env \<Rightarrow> 'n world \<Rightarrow> 'n jv \<Rightarrow> string \<Rightarrow> (js_error + 'n response) \<times> 'n world" where
  "write_appointment eng env w data key =
     (let (timestamp, w1) = read_clock env w in
      case uuid_v4 env of
        Inl e \<Rightarrow> (Inl e, w1)
      | Inr appointmentId \<Rightarrow>
          (let item = make_item data appointmentId key timestamp in
           case dynamoDb_put env w1 item of
             (Inr u, w2) \<Rightarrow>
               (Inr (respond 200
                  [(''message'', JStr ''Appointment created successfully''),
                   (''appointmentId'', JStr appointmentId),
                   (''appointment'', item)]), w2)
           | (Inl putError, w2) \<Rightarrow>
               (let (t, w3) = read_clock env w2 in
                (Inr (respond 500
                   [(''message'', JStr ''Could not create appointment''),
                    (''error'', err_message putError),
                    (''code'', err_code putError),
                    (''time'', JStr t),
                    (''tableName'', JStr (TABLE_NAME env)),
                    (''params'', JStr (json_stringify eng (putParams env item)))]), w3))))"

text \<open>Lines 104-150: the key, the conflict check, then the write.\<close>

definition check_and_write ::
  "'n engine \<Rightarrow> 'n env \<Rightarrow> 'n world \<Rightarrow> 'n jv \<Rightarrow> (js_error + 'n response) \<times> 'n world" where
  "check_and_write eng env w data =
     (case locationTimeKey eng data of
        Inl e \<Rightarrow> (Inl e, w)
      | Inr key \<Rightarrow>
          (case dynamoDb_query env w key of
             (Inr existing, w1) \<Rightarrow>
               if length existing > 0
               then (Inr (respond 409
                       [(''message'',
                         JStr ''This appointment time is already booked at this location'')]), w1)
               else write_appointment eng env w1 data key
           | (Inl queryError, w1) \<Rightarrow>
               (let (t, w2) = read_clock env w1 in
                (Inr (respond 500
                   [(''message'', JStr ''Could not process appointment request''),
                    (''error'', err_message queryError),
                    (''code'', err_code queryError),
                    (''time'', JStr t),
                    (''tableName'', JStr (TABLE_NAME env)),
                    (''params'', JStr (json_stringify eng (getParams env key)))]), w2))))"

text \<open>The validated part of the try block (lines 70-205), on a decoded payload.\<close>

definition process ::
  "'n engine \<Rightarrow> 'n env \<Rightarrow> 'n world \<Rightarrow> 'n jv \<Rightarrow> (js_error + 'n response) \<times> 'n world" where
  "process eng env w data =
     (case validate eng data of
        Throw e \<Rightarrow> (Inl e, w)
      | Return r \<Rightarrow> (Inr r, w)
      | Next u \<Rightarrow> check_and_write eng env w data)"

text \<open>The try block, lines 49-205.\<close>

definition handler_try ::
  "'n engine \<Rightarrow> 'n env \<Rightarrow> 'n world \<Rightarrow> 'n jv \<Rightarrow> (js_error + 'n response) \<times> 'n world" where
  "handler_try eng env w event =
     (case decode eng event of
        Throw e \<Rightarrow> (Inl e, w)
      | Return r \<Rightarrow> (Inr r, w)
      | Next data \<Rightarrow> process eng env w data)"

text \<open>
  The handler: the try block and the outermost catch (lines 206-218). The
  \<^verbatim>\<open>console.log\<close> and \<^verbatim>\<open>console.error\<close> lines write to the log only and are left out.
\<close>

definition handler :: "'n engine \<Rightarrow> 'n env \<Rightarrow> 'n world \<Rightarrow> 'n jv \<Rightarrow> 'n response \<times> 'n world" where
  "handler eng env w event =
     (case handler_try eng env w event of
        (Inr r, w1) \<Rightarrow> (r, w1)
      | (Inl error, w1) \<Rightarrow>
          (let (t, w2) = read_clock env w1 in
           (respond 500
              [(''message'', JStr ''Internal server error''),
               (''error'', JStr (err_msg error)),
               (''stack'', JStr (err_stack error)),
               (''time'', JStr t)], w2)))"

section \<open>The conditions the claims speak of\<close>

text \<open>
  A valid request, in the words of the specification: the five required fields are
  present (they pass the handler's check, which is truthiness), services is a non-empty
  sequence, and appointmentTime parses as a date.
\<close>

definition valid_request :: "'n engine \<Rightarrow> 'n jv \<Rightarrow> bool" where
  "valid_request eng data \<longleftrightarrow>
     (\<forall>f \<in> set requiredFields. truthy eng (attr data f)) \<and>
     isArray (attr data ''services'') \<and> 0 < array_length (attr data ''services'') \<and>
     date_valid eng (attr data ''appointmentTime'') = Inr True"

text \<open>
  The first required field, in the order of the list, that is absent or bound to a
  falsy value.
\<close>

definition first_falsy :: "'n engine \<Rightarrow> 'n jv \<Rightarrow> string option" where
  "first_falsy eng data = find (\<lambda>f. \<not> truthy eng (attr data f)) requiredFields"

text \<open>The first required field, in the order of the list, that the payload does not have.\<close>

definition first_absent :: "'n jv \<Rightarrow> string option" where
  "first_absent data = find (\<lambda>f. attr data f = JUndefined) requiredFields"

text \<open>
  The shape of every response (section 6 of the specification): one of the four status
  codes, the one header, and an object as the value that \<^verbatim>\<open>JSON.stringify\<close> turns into
  the body string.
\<close>

fun isObject :: "'n jv \<Rightarrow> bool" where
  "isObject (JObj kvs) = True"
| "isObject v = False"

definition well_formed :: "'n response \<Rightarrow> bool" where
  "well_formed r \<longleftrightarrow>
     statusCode r \<in> {200, 400, 409, 500} \<and>
     headers r = [(''Content-Type'', ''application/json'')] \<and>
     isObject (body r)"

section \<open>An engine, a store and requests for the examples\<close>

text \<open>
  The examples run on integers as numbers. \<open>json_text\<close> writes a value as JSON text
  (for strings that need no escaping), and the example engine's \<^verbatim>\<open>JSON.parse\<close> reads
  back the texts of the payloads listed in \<open>example_payloads\<close>; every other text is a
  syntax error for it. Its \<^verbatim>\<open>Date.parse\<close> knows the one timestamp of the test suite.
\<close>

fun join_comma :: "string list \<Rightarrow> string" where
  "join_comma [] = []"
| "join_comma [s] = s"
| "join_comma (s # t # ts) = s @ '','' @ join_comma (t # ts)"

definition digit_char :: "nat \<Rightarrow> char" where
  "digit_char d = ''0123456789'' ! d"

function show_nat :: "nat \<Rightarrow> string" where
  "show_nat n = (if n < 10 then [digit_char n] else show_nat (n div 10) @ [digit_char (n mod 10)])"
  by pat_completeness auto
termination
  by (relation "measure id") auto

declare show_nat.simps [simp del]

definition show_int :: "int \<Rightarrow> string" where
  "show_int i = (if i < 0 then ''-'' @ show_nat (nat (- i)) else show_nat (nat i))"

definition quote_str :: "string \<Rightarrow> string" where
  "quote_str s = CHR 0x22 # s @ [CHR 0x22]"

fun json_text :: "int jv \<Rightarrow> string" where
  "json_text JUndefined = ''null''"
| "json_text JNull = ''null''"
| "json_text (JBool b) = (if b then ''true'' else ''false'')"
| "json_text (JNum n) = show_int n"
| "json_text (JStr s) = quote_str s"
| "json_text (JArr xs) = ''['' @ join_comma (map json_text xs) @ '']''"
| "json_text (JObj kvs) =
     ''{'' @ join_comma (map (\<lambda>(k, v). quote_str k @ '':'' @ json_text v) kvs) @ ''}''"

text \<open>The request of the test suite (\<^verbatim>\<open>tests/create.test.js\<close>).\<close>

definition jane_doe :: "int jv" where
  "jane_doe =
     JObj [(''fullName'', JStr ''Jane Doe''),
           (''location'', JStr ''Farrish Subaru''),
           (''appointmentTime'', JStr ''2025-04-20T15:30:00Z''),
           (''car'', JStr ''Subaru Outback''),
           (''services'', JArr [JStr ''Oil Change'', JStr ''Tire Rotation''])]"

definition example_payloads :: "int jv list" where
  "example_payloads = [jane_doe, JNull]"

definition example_engine :: "int engine" where
  "example_engine =
     \<lparr>num_truthy = (\<lambda>n. n \<noteq> 0),
      num_to_string = show_int,
      json_parse = (\<lambda>s. find (\<lambda>d. json_text d = s) example_payloads),
      json_stringify = json_text,
      date_parse_ok = (\<lambda>s. s = ''2025-04-20T15:30:00Z''),
      time_value_ok = (\<lambda>n. \<bar>n\<bar> \<le> 8640000000000000),
      null_read_error = (\<lambda>v p.
        \<lparr>err_msg = ''Cannot read properties of '' @ json_text v, err_stack = ''TypeError''\<rparr>),
      to_primitive_error = (\<lambda>v.
        \<lparr>err_msg = ''Cannot convert object to primitive value'', err_stack = ''TypeError''\<rparr>)\<rparr>"

text \<open>The collaborators of the test suite: the mocked id, a store that answers.\<close>

definition example_env :: "int env" where
  "example_env =
     \<lparr>TABLE_NAME = ''service-appointment-api-test'',
      clock = (\<lambda>k. ''2025-04-01T00:00:00.000Z''),
      uuid_v4 = Inr ''test-uuid-12345'',
      query_fault = None,
      put_fault = None,
      key_schema_error = (\<lambda>item.
        \<lparr>err_message = JStr ''One or more parameter values were invalid'',
         err_code = JStr ''ValidationException''\<rparr>)\<rparr>"

definition empty_world :: "int world" where
  "empty_world = \<lparr>items = [], calls = [], clock_reads = 0\<rparr>"

text \<open>The event of the test suite: the request as JSON text in \<^verbatim>\<open>event.body\<close>.\<close>

definition jane_event :: "int jv" where
  "jane_event = JObj [(''body'', JStr (json_text jane_doe))]"

text \<open>A body that is the JSON text \<^verbatim>\<open>null\<close>.\<close>

definition null_body_event :: "int jv" where
  "null_body_event = JObj [(''body'', JStr ''null'')]"

text \<open>The mocks of the test suite that reject the query and the put.\<close>

definition query_down_env :: "int env" where
  "query_down_env =
     example_env\<lparr>query_fault := Some \<lparr>err_message = JStr ''Query Error'', err_code = JUndefined\<rparr>\<rparr>"

definition put_down_env :: "int env" where
  "put_down_env =
     example_env\<lparr>put_fault := Some \<lparr>err_message = JStr ''Put Error'', err_code = JUndefined\<rparr>\<rparr>"


text \<open>
  Requests given to the handler directly (an event without \<^verbatim>\<open>body\<close> is the payload
  itself): an empty fullName and no location; no location; no car; an empty services
  array with a timestamp that does not parse; and a number and an empty array where
  strings are expected.
\<close>

definition blank_name_request :: "int jv" where
  "blank_name_request =
     JObj [(''fullName'', JStr ''''),
           (''appointmentTime'', JStr ''2025-04-20T15:30:00Z''),
           (''car'', JStr ''Subaru Outback''),
           (''services'', JArr [JStr ''Oil Change''])]"

definition no_location_request :: "int jv" where
  "no_location_request =
     JObj [(''fullName'', JStr ''Jane Doe'')]"

definition no_car_request :: "int jv" where
  "no_car_request =
     JObj [(''fullName'', JStr ''John Roe''),
           (''location'', JStr ''Farrish Subaru''),
           (''appointmentTime'', JStr ''2025-04-20T15:30:00Z''),
           (''services'', JArr [JStr ''Oil Change''])]"


definition odd_request :: "int jv" where
  "odd_request =
     JObj [(''fullName'', JNum 5),
           (''location'', JStr ''Farrish Subaru''),
           (''appointmentTime'', JStr ''2025-04-20T15:30:00Z''),
           (''car'', JArr []),
           (''services'', JArr [JStr ''Oil Change''])]"


definition blank_location_request :: "int jv" where
  "blank_location_request =
     JObj [(''location'', JStr []),
           (''appointmentTime'', JStr ''2025-04-20T15:30:00Z''),
           (''car'', JStr ''Subaru Outback''),
           (''services'', JArr [JStr ''Oil Change''])]"

section \<open>Facts about the steps\<close>

lemma respond_simps:
  "statusCode (respond st kvs) = st"
  "headers (respond st kvs) = [(''Content-Type'', ''application/json'')]"
  "body (respond st kvs) = JObj kvs"
  by (simp_all add: respond_def)

lemma well_formed_respond: "well_formed (respond st kvs) \<longleftrightarrow> st \<in> {200, 400, 409, 500}"
  by (simp add: well_formed_def respond_def)

lemma get_prop_defined:
  "data \<noteq> JNull \<Longrightarrow> data \<noteq> JUndefined \<Longrightarrow> get_prop eng data p = Inr (attr data p)"
  by (cases data) simp_all

text \<open>On a payload whose properties can be read, the loop finds the first falsy field.\<close>

lemma first_missing_find:
  "data \<noteq> JNull \<Longrightarrow> data \<noteq> JUndefined \<Longrightarrow>
   first_missing eng data fs = Inr (find (\<lambda>f. \<not> truthy eng (attr data f)) fs)"
  by (induction fs) (simp_all add: get_prop_defined)

lemma find_some_exists: "f \<in> set xs \<Longrightarrow> P f \<Longrightarrow> \<exists>x. find P xs = Some x"
  by (induction xs) auto

lemma find_first_is:
  "f \<in> set xs \<Longrightarrow> P f \<Longrightarrow> \<forall>g \<in> set (takeWhile (\<lambda>g. g \<noteq> f) xs). \<not> P g \<Longrightarrow> find P xs = Some f"
  by (induction xs) auto

lemma find_agree:
  "\<exists>f \<in> set xs. Q f \<Longrightarrow> \<forall>g. Q g \<longrightarrow> P g \<Longrightarrow>
   \<forall>g \<in> set (takeWhile (\<lambda>g. \<not> Q g) xs). \<not> P g \<Longrightarrow> find P xs = find Q xs"
  by (induction xs) auto

subsection \<open>Validation passes exactly the valid requests\<close>

lemma valid_request_defined: "valid_request eng data \<Longrightarrow> data \<noteq> JNull \<and> data \<noteq> JUndefined"
  by (auto simp: valid_request_def requiredFields_def)

lemma validate_valid: "valid_request eng data \<Longrightarrow> validate eng data = Next ()"
proof -
  assume v: "valid_request eng data"
  then have d: "data \<noteq> JNull" "data \<noteq> JUndefined"
    using valid_request_defined by blast+
  from v have "find (\<lambda>f. \<not> truthy eng (attr data f)) requiredFields = None"
    by (simp add: valid_request_def find_None_iff)
  with v d show ?thesis
    by (simp add: validate_def first_missing_find valid_request_def)
qed

lemma validate_Next_valid: "validate eng data = Next u \<Longrightarrow> valid_request eng data"
proof -
  assume n: "validate eng data = Next u"
  have d: "data \<noteq> JNull" "data \<noteq> JUndefined"
    using n by (auto simp: validate_def requiredFields_def)
  from n d have "find (\<lambda>f. \<not> truthy eng (attr data f)) requiredFields = None"
    by (auto simp: validate_def first_missing_find split: option.splits if_splits)
  with n d show ?thesis
    by (auto simp: validate_def first_missing_find valid_request_def find_None_iff
        split: if_splits sum.splits)
qed

lemma validate_well_formed: "validate eng data = Return r \<Longrightarrow> statusCode r = 400 \<and> well_formed r"
  by (auto simp: validate_def well_formed_respond respond_simps
      split: sum.splits option.splits if_splits)

lemma process_valid:
  "valid_request eng data \<Longrightarrow> process eng env w data = check_and_write eng env w data"
  by (simp add: process_def validate_valid)

lemma handler_decoded:
  "decode eng event = Next data \<Longrightarrow> process eng env w data = (Inr r, w') \<Longrightarrow>
   handler eng env w event = (r, w')"
  by (simp add: handler_def handler_try_def)

lemma decode_direct:
  "attr (JObj kvs) ''body'' = JUndefined \<Longrightarrow> decode eng (JObj kvs) = Next (JObj kvs)"
  by (simp add: decode_def)

lemma missing_field_response:
  assumes "decode eng event = Next data"
    and "data \<noteq> JNull" and "data \<noteq> JUndefined"
    and "first_falsy eng data = Some x"
  shows "handler eng env w event =
           (respond 400 [(''message'', JStr (''Missing required field: '' @ x))], w)"
  using assms
  by (simp add: handler_def handler_try_def process_def validate_def first_missing_find
      first_falsy_def)

lemma null_payload_throws:
  "data = JNull \<or> data = JUndefined \<Longrightarrow>
   process eng env w data = (Inl (null_read_error eng data ''fullName''), w)"
  by (auto simp: process_def validate_def requiredFields_def)

subsection \<open>The key and the conflict check\<close>

text \<open>The key of a request depends on its location and appointmentTime only.\<close>

lemma locationTimeKey_cong:
  "attr data2 ''location'' = attr data1 ''location'' \<Longrightarrow>
   attr data2 ''appointmentTime'' = attr data1 ''appointmentTime'' \<Longrightarrow>
   locationTimeKey eng data2 = locationTimeKey eng data1"
  by (simp add: locationTimeKey_def split: sum.splits)

text \<open>For strings the key is the two strings around the separator.\<close>

lemma locationTimeKey_strings:
  "attr data ''location'' = JStr l \<Longrightarrow> attr data ''appointmentTime'' = JStr t \<Longrightarrow>
   locationTimeKey eng data = Inr (l @ ''#'' @ t)"
  by (simp add: locationTimeKey_def)

lemma locationTimeKey_parts:
  "locationTimeKey eng data = Inr key \<Longrightarrow>
   \<exists>l t. to_string eng (attr data ''location'') = Inr l \<and>
         to_string eng (attr data ''appointmentTime'') = Inr t \<and> key = l @ ''#'' @ t"
  by (auto simp: locationTimeKey_def split: sum.splits)


lemma conflict_response:
  assumes "decode eng event = Next data"
    and "valid_request eng data"
    and "locationTimeKey eng data = Inr key"
    and "query_fault env = None"
    and "list_ex (\<lambda>it. attr it ''locationTimeKey'' = JStr key) (items w)"
  shows "handler eng env w event =
           (respond 409
              [(''message'', JStr ''This appointment time is already booked at this location'')],
            w\<lparr>calls := calls w @ [Query key]\<rparr>)"
proof -
  from assms(5) have "filter (\<lambda>it. attr it ''locationTimeKey'' = JStr key) (items w) \<noteq> []"
    by (simp add: filter_empty_conv list_ex_iff)
  with assms(3,4) have "check_and_write eng env w data =
      (Inr (respond 409
         [(''message'', JStr ''This appointment time is already booked at this location'')]),
       w\<lparr>calls := calls w @ [Query key]\<rparr>)"
    by (simp add: check_and_write_def dynamoDb_query_def Let_def)
  with assms(1,2) show ?thesis
    by (simp add: handler_decoded process_valid)
qed

text \<open>
  What the conflict check does once the key is there: the three ways on, by what the
  store answers.
\<close>

lemma check_and_write_cases:
  assumes "locationTimeKey eng data = Inr key"
  shows "check_and_write eng env w data =
     (case query_fault env of
        Some queryError \<Rightarrow>
          (Inr (respond 500
             [(''message'', JStr ''Could not process appointment request''),
              (''error'', err_message queryError),
              (''code'', err_code queryError),
              (''time'', JStr (clock env (clock_reads w))),
              (''tableName'', JStr (TABLE_NAME env)),
              (''params'', JStr (json_stringify eng (getParams env key)))]),
           w\<lparr>calls := calls w @ [Query key], clock_reads := Suc (clock_reads w)\<rparr>)
      | None \<Rightarrow>
          if list_ex (\<lambda>it. attr it ''locationTimeKey'' = JStr key) (items w)
          then (Inr (respond 409
                  [(''message'',
                    JStr ''This appointment time is already booked at this location'')]),
                w\<lparr>calls := calls w @ [Query key]\<rparr>)
          else write_appointment eng env (w\<lparr>calls := calls w @ [Query key]\<rparr>) data key)"
  using assms
  by (auto simp: check_and_write_def dynamoDb_query_def Let_def read_clock_def
      filter_empty_conv list_ex_iff split: option.splits)

subsection \<open>The put\<close>

lemma make_item_required:
  "f \<in> set requiredFields \<Longrightarrow> attr (make_item data i key ts) f = attr data f"
  by (auto simp: requiredFields_def make_item_def)

lemma stored_key:
  "key \<noteq> [] \<Longrightarrow>
   attr (convertEmptyValues (make_item data i key ts)) ''locationTimeKey'' = JStr key"
  by (simp add: make_item_def)

lemma key_nonempty: "locationTimeKey eng data = Inr key \<Longrightarrow> key \<noteq> []"
  by (auto dest: locationTimeKey_parts)


lemma write_appointment_cases:
  "write_appointment eng env w data key =
     (case uuid_v4 env of
        Inl e \<Rightarrow> (Inl e, w\<lparr>clock_reads := Suc (clock_reads w)\<rparr>)
      | Inr i \<Rightarrow>
          (case put_rejection env (items w)
                  (make_item data i key (clock env (clock_reads w))) of
             None \<Rightarrow>
               (Inr (respond 200
                  [(''message'', JStr ''Appointment created successfully''),
                   (''appointmentId'', JStr i),
                   (''appointment'', make_item data i key (clock env (clock_reads w)))]),
                w\<lparr>clock_reads := Suc (clock_reads w),
                  calls := calls w @ [Put (make_item data i key (clock env (clock_reads w)))],
                  items := items w @
                    [convertEmptyValues (make_item data i key (clock env (clock_reads w)))]\<rparr>)
           | Some putError \<Rightarrow>
               (Inr (respond 500
                  [(''message'', JStr ''Could not create appointment''),
                   (''error'', err_message putError),
                   (''code'', err_code putError),
                   (''time'', JStr (clock env (Suc (clock_reads w)))),
                   (''tableName'', JStr (TABLE_NAME env)),
                   (''params'', JStr (json_stringify eng (putParams env
                      (make_item data i key (clock env (clock_reads w))))))]),
                w\<lparr>clock_reads := Suc (Suc (clock_reads w)),
                  calls := calls w @
                    [Put (make_item data i key (clock env (clock_reads w)))]\<rparr>)))"
  by (simp add: write_appointment_def dynamoDb_put_def read_clock_def Let_def
      split: sum.splits option.splits)

subsection \<open>A response other than 200 leaves the table as it was\<close>

lemma write_appointment_items:
  assumes "write_appointment eng env w data key = (res, w')"
    and "\<forall>r. res = Inr r \<longrightarrow> statusCode r \<noteq> 200"
  shows "items w' = items w"
  using assms
  by (auto simp: write_appointment_cases respond_simps split: sum.splits option.splits)

lemma check_and_write_items:
  assumes "check_and_write eng env w data = (res, w')"
    and "\<forall>r. res = Inr r \<longrightarrow> statusCode r \<noteq> 200"
  shows "items w' = items w"
proof (cases "locationTimeKey eng data")
  case (Inl e)
  with assms(1) show ?thesis
    by (simp add: check_and_write_def)
next
  case (Inr key)
  show ?thesis
  proof (cases "query_fault env = None \<and>
      \<not> list_ex (\<lambda>it. attr it ''locationTimeKey'' = JStr key) (items w)")
    case True
    with assms(1) have "write_appointment eng env
        (w\<lparr>calls := calls w @ [Query key]\<rparr>) data key = (res, w')"
      by (simp add: check_and_write_cases [OF Inr])
    from write_appointment_items [OF this assms(2)] show ?thesis by simp
  next
    case False
    with assms(1) show ?thesis
      by (auto simp: check_and_write_cases [OF Inr] split: option.splits if_splits)
  qed
qed

lemma process_items:
  assumes "process eng env w data = (res, w')"
    and "\<forall>r. res = Inr r \<longrightarrow> statusCode r \<noteq> 200"
  shows "items w' = items w"
proof (cases "validate eng data")
  case (Next u)
  with assms(1) have "check_and_write eng env w data = (res, w')"
    by (simp add: process_def)
  from check_and_write_items [OF this assms(2)] show ?thesis .
qed (use assms(1) in \<open>auto simp: process_def\<close>)

lemma handler_try_items:
  assumes "handler_try eng env w event = (res, w')"
    and "\<forall>r. res = Inr r \<longrightarrow> statusCode r \<noteq> 200"
  shows "items w' = items w"
proof (cases "decode eng event")
  case (Next data)
  with assms(1) have "process eng env w data = (res, w')"
    by (simp add: handler_try_def)
  from process_items [OF this assms(2)] show ?thesis .
qed (use assms(1) in \<open>auto simp: handler_try_def\<close>)

lemma handler_items:
  assumes "handler eng env w event = (r, w')" and "statusCode r \<noteq> 200"
  shows "items w' = items w"
proof -
  obtain res w1 where t: "handler_try eng env w event = (res, w1)"
    by (cases "handler_try eng env w event")
  show ?thesis
  proof (cases res)
    case (Inl e)
    with t assms(1) have "items w' = items w1"
      by (auto simp: handler_def read_clock_def)
    moreover from Inl have "items w1 = items w"
      using handler_try_items [OF t] by simp
    ultimately show ?thesis by simp
  next
    case (Inr r0)
    with t assms(1) have "r0 = r" "w1 = w'"
      by (simp_all add: handler_def)
    with Inr assms(2) show ?thesis
      using handler_try_items [OF t] by simp
  qed
qed

subsection \<open>A response 200 adds the one item, to a free slot\<close>

lemma write_appointment_created:
  "write_appointment eng env w data key = (Inr r, w') \<Longrightarrow> statusCode r = 200 \<Longrightarrow>
   \<exists>i ts. items w' = items w @ [convertEmptyValues (make_item data i key ts)]"
  by (auto simp: write_appointment_cases respond_simps split: sum.splits option.splits) blast+

lemma check_and_write_created:
  assumes "check_and_write eng env w data = (Inr r, w')" and "statusCode r = 200"
  shows "\<exists>key. locationTimeKey eng data = Inr key \<and>
           (\<exists>i ts. items w' = items w @ [convertEmptyValues (make_item data i key ts)]) \<and>
           \<not> list_ex (\<lambda>it. attr it ''locationTimeKey'' = JStr key) (items w)"
proof (cases "locationTimeKey eng data")
  case (Inl e)
  with assms(1) show ?thesis
    by (simp add: check_and_write_def)
next
  case (Inr key)
  show ?thesis
  proof (cases "query_fault env = None \<and>
      \<not> list_ex (\<lambda>it. attr it ''locationTimeKey'' = JStr key) (items w)")
    case True
    with assms(1) have "write_appointment eng env
        (w\<lparr>calls := calls w @ [Query key]\<rparr>) data key = (Inr r, w')"
      by (simp add: check_and_write_cases [OF Inr])
    from write_appointment_created [OF this assms(2)] True Inr show ?thesis
      by simp
  next
    case False
    with assms show ?thesis
      by (auto simp: check_and_write_cases [OF Inr] respond_simps split: option.splits if_splits)
  qed
qed

lemma handler_created:
  assumes "decode eng event = Next data"
    and "handler eng env w event = (r, w')" and "statusCode r = 200"
  shows "\<exists>key. locationTimeKey eng data = Inr key \<and>
           (\<exists>i ts. items w' = items w @ [convertEmptyValues (make_item data i key ts)]) \<and>
           \<not> list_ex (\<lambda>it. attr it ''locationTimeKey'' = JStr key) (items w)"
proof -
  obtain res w1 where p: "process eng env w data = (res, w1)"
    by (cases "process eng env w data")
  show ?thesis
  proof (cases res)
    case (Inl e)
    with p assms show ?thesis
      by (auto simp: handler_def handler_try_def read_clock_def respond_simps)
  next
    case (Inr r0)
    with p assms(1,2) have e: "r0 = r" "w1 = w'"
      by (simp_all add: handler_def handler_try_def)
    show ?thesis
    proof (cases "validate eng data")
      case (Next u)
      with p Inr e have "check_and_write eng env w data = (Inr r, w')"
        by (simp add: process_def)
      from check_and_write_created [OF this assms(3)] show ?thesis .
    next
      case (Return r1)
      with p Inr e validate_well_formed [OF Return] assms(3) show ?thesis
        by (simp add: process_def)
    next
      case (Throw x)
      with p Inr show ?thesis
        by (simp add: process_def)
    qed
  qed
qed

subsection \<open>Every put is of an item built from a valid payload\<close>

lemma write_appointment_calls:
  assumes "write_appointment eng env w data key = (res, w')"
  shows "\<exists>cs. calls w' = calls w @ cs \<and>
           (\<forall>item. Put item \<in> set cs \<longrightarrow> (\<exists>i ts. item = make_item data i key ts))"
  using assms
  by (auto simp: write_appointment_cases split: sum.splits option.splits) blast+

lemma check_and_write_calls:
  assumes "check_and_write eng env w data = (res, w')"
  shows "\<exists>cs. calls w' = calls w @ cs \<and>
           (\<forall>item. Put item \<in> set cs \<longrightarrow>
              (\<exists>key i ts. locationTimeKey eng data = Inr key \<and> item = make_item data i key ts))"
proof (cases "locationTimeKey eng data")
  case (Inl e)
  with assms show ?thesis
    by (simp add: check_and_write_def)
next
  case (Inr key)
  show ?thesis
  proof (cases "query_fault env = None \<and>
      \<not> list_ex (\<lambda>it. attr it ''locationTimeKey'' = JStr key) (items w)")
    case True
    with assms have "write_appointment eng env
        (w\<lparr>calls := calls w @ [Query key]\<rparr>) data key = (res, w')"
      by (simp add: check_and_write_cases [OF Inr])
    from write_appointment_calls [OF this] obtain cs where
      cs: "calls w' = (calls w @ [Query key]) @ cs"
        "\<forall>item. Put item \<in> set cs \<longrightarrow> (\<exists>i ts. item = make_item data i key ts)"
      by auto
    then have "calls w' = calls w @ (Query key # cs)"
      by simp
    moreover from cs(2) Inr have "\<forall>item. Put item \<in> set (Query key # cs) \<longrightarrow>
        (\<exists>key i ts. locationTimeKey eng data = Inr key \<and> item = make_item data i key ts)"
      by simp
    ultimately show ?thesis by blast
  next
    case False
    with assms show ?thesis
      by (auto simp: check_and_write_cases [OF Inr] split: option.splits if_splits)
  qed
qed

lemma process_calls:
  assumes "process eng env w data = (res, w')"
  shows "\<exists>cs. calls w' = calls w @ cs \<and>
           (\<forall>item. Put item \<in> set cs \<longrightarrow>
              valid_request eng data \<and>
              (\<exists>key i ts. locationTimeKey eng data = Inr key \<and> item = make_item data i key ts))"
proof (cases "validate eng data")
  case (Next u)
  with assms have "check_and_write eng env w data = (res, w')"
    by (simp add: process_def)
  from check_and_write_calls [OF this] validate_Next_valid [OF Next] show ?thesis
    by blast
qed (use assms in \<open>auto simp: process_def\<close>)

lemma handler_calls:
  assumes "handler eng env w event = (r, w')"
  shows "\<exists>cs. calls w' = calls w @ cs \<and>
           (\<forall>item. Put item \<in> set cs \<longrightarrow>
              (\<exists>data key i ts. decode eng event = Next data \<and> valid_request eng data \<and>
                 locationTimeKey eng data = Inr key \<and> item = make_item data i key ts))"
proof -
  obtain res w1 where t: "handler_try eng env w event = (res, w1)"
    by (cases "handler_try eng env w event")
  with assms have c: "calls w' = calls w1"
    by (auto simp: handler_def read_clock_def split: sum.splits)
  show ?thesis
  proof (cases "decode eng event")
    case (Next data)
    with t have "process eng env w data = (res, w1)"
      by (simp add: handler_try_def)
    from process_calls [OF this] c Next show ?thesis
      by auto
  qed (use t c in \<open>auto simp: handler_try_def\<close>)
qed

subsection \<open>Every response is well formed\<close>

lemma decode_well_formed: "decode eng event = Return r \<Longrightarrow> well_formed r"
  by (auto simp: decode_def well_formed_respond split: sum.splits option.splits if_splits)

lemma write_appointment_well_formed:
  "write_appointment eng env w data key = (Inr r, w') \<Longrightarrow> well_formed r"
  by (auto simp: write_appointment_cases well_formed_respond split: sum.splits option.splits)

lemma check_and_write_well_formed:
  assumes "check_and_write eng env w data = (Inr r, w')"
  shows "well_formed r"
proof (cases "locationTimeKey eng data")
  case (Inl e)
  with assms show ?thesis
    by (simp add: check_and_write_def)
next
  case (Inr key)
  show ?thesis
  proof (cases "query_fault env = None \<and>
      \<not> list_ex (\<lambda>it. attr it ''locationTimeKey'' = JStr key) (items w)")
    case True
    with assms have "write_appointment eng env
        (w\<lparr>calls := calls w @ [Query key]\<rparr>) data key = (Inr r, w')"
      by (simp add: check_and_write_cases [OF Inr])
    then show ?thesis by (rule write_appointment_well_formed)
  next
    case False
    with assms show ?thesis
      by (auto simp: check_and_write_cases [OF Inr] well_formed_respond
          split: option.splits if_splits)
  qed
qed

lemma process_well_formed:
  assumes "process eng env w data = (Inr r, w')"
  shows "well_formed r"
proof (cases "validate eng data")
  case (Next u)
  with assms have "check_and_write eng env w data = (Inr r, w')"
    by (simp add: process_def)
  then show ?thesis by (rule check_and_write_well_formed)
next
  case (Return r0)
  with assms validate_well_formed [OF Return] show ?thesis
    by (simp add: process_def)
qed (use assms in \<open>simp add: process_def\<close>)

lemma handler_try_well_formed:
  assumes "handler_try eng env w event = (Inr r, w')"
  shows "well_formed r"
proof (cases "decode eng event")
  case (Next data)
  with assms have "process eng env w data = (Inr r, w')"
    by (simp add: handler_try_def)
  then show ?thesis by (rule process_well_formed)
next
  case (Return r0)
  with assms decode_well_formed [OF Return] show ?thesis
    by (simp add: handler_try_def)
qed (use assms in \<open>simp add: handler_try_def\<close>)

lemma handler_well_formed: "well_formed (fst (handler eng env w event))"
proof -
  obtain res w1 where t: "handler_try eng env w event = (res, w1)"
    by (cases "handler_try eng env w event")
  show ?thesis
  proof (cases res)
    case (Inl e)
    with t show ?thesis
      by (simp add: handler_def read_clock_def well_formed_respond)
  next
    case (Inr r)
    with t handler_try_well_formed [of eng env w event r w1] show ?thesis
      by (simp add: handler_def)
  qed
qed

subsection \<open>The runs of the examples\<close>

lemma jane_decode: "decode example_engine jane_event = Next jane_doe"
  by (simp add: decode_def jane_event_def example_engine_def example_payloads_def jane_doe_def
      quote_str_def)

lemma jane_valid: "valid_request example_engine jane_doe"
  by (simp add: valid_request_def requiredFields_def jane_doe_def example_engine_def)

lemma jane_key:
  "locationTimeKey example_engine jane_doe = Inr ''Farrish Subaru#2025-04-20T15:30:00Z''"
  by (simp add: locationTimeKey_def jane_doe_def)

lemma jane_put_accepted:
  "put_rejection example_env []
     (make_item jane_doe ''test-uuid-12345'' ''Farrish Subaru#2025-04-20T15:30:00Z''
        ''2025-04-01T00:00:00.000Z'') = None"
  by (simp add: put_rejection_def key_schema_ok_def make_item_def example_env_def jane_doe_def)

lemma jane_run:
  "handler example_engine example_env empty_world jane_event =
     (respond 200
        [(''message'', JStr ''Appointment created successfully''),
         (''appointmentId'', JStr ''test-uuid-12345''),
         (''appointment'', make_item jane_doe ''test-uuid-12345''
            ''Farrish Subaru#2025-04-20T15:30:00Z'' ''2025-04-01T00:00:00.000Z'')],
      \<lparr>items = [convertEmptyValues (make_item jane_doe ''test-uuid-12345''
            ''Farrish Subaru#2025-04-20T15:30:00Z'' ''2025-04-01T00:00:00.000Z'')],
       calls = [Query ''Farrish Subaru#2025-04-20T15:30:00Z'',
                Put (make_item jane_doe ''test-uuid-12345''
                  ''Farrish Subaru#2025-04-20T15:30:00Z'' ''2025-04-01T00:00:00.000Z'')],
       clock_reads = 1\<rparr>)"
proof -
  have e: "uuid_v4 example_env = Inr ''test-uuid-12345''" "query_fault example_env = None"
    "clock example_env 0 = ''2025-04-01T00:00:00.000Z''"
    by (simp_all add: example_env_def)
  show ?thesis
    by (simp add: handler_def handler_try_def jane_decode process_valid jane_valid
        check_and_write_cases [OF jane_key] write_appointment_cases e jane_put_accepted
        empty_world_def)
qed

subsection \<open>What the store answers to the query\<close>

lemma query_rejected:
  "fst (dynamoDb_query env w key) = Inl e \<longleftrightarrow> query_fault env = Some e"
  by (auto simp: dynamoDb_query_def Let_def split: option.splits)




section \<open>The claims\<close>






text \<open>
  C3, as stated, fails: a second request with the location and time of a created
  appointment that lacks the field \<^verbatim>\<open>car\<close> is answered 400, not 409, since validation comes
  before the conflict check.
\<close>

theorem replay_conflicts_counterexample:
  "decode example_engine jane_event = Next jane_doe \<and>
   statusCode (fst (handler example_engine example_env empty_world jane_event)) = 200 \<and>
   decode example_engine no_car_request = Next no_car_request \<and>
   attr no_car_request ''location'' = attr jane_doe ''location'' \<and>
   attr no_car_request ''appointmentTime'' = attr jane_doe ''appointmentTime'' \<and>
   fst (handler example_engine example_env
     (snd (handler example_engine example_env empty_world jane_event)) no_car_request) =
     respond 400 [(''message'', JStr ''Missing required field: car'')] \<and>
   statusCode (fst (handler example_engine example_env
     (snd (handler example_engine example_env empty_world jane_event)) no_car_request)) \<noteq> 409"
proof -
  have s: "statusCode (fst (handler example_engine example_env empty_world jane_event)) = 200"
    by (simp add: jane_run respond_simps)
  have d: "decode example_engine no_car_request = Next no_car_request"
    by (simp add: no_car_request_def decode_direct)
  have f: "first_falsy example_engine no_car_request = Some ''car''"
    by (simp add: first_falsy_def requiredFields_def no_car_request_def)
  have h: "handler example_engine example_env
     (snd (handler example_engine example_env empty_world jane_event)) no_car_request =
     (respond 400 [(''message'', JStr ''Missing required field: car'')],
      snd (handler example_engine example_env empty_world jane_event))"
    using missing_field_response [OF d _ _ f] by (simp add: no_car_request_def)
  have a: "attr no_car_request ''location'' = attr jane_doe ''location''"
    "attr no_car_request ''appointmentTime'' = attr jane_doe ''appointmentTime''"
    by (simp_all add: no_car_request_def jane_doe_def)
  from s d h a show ?thesis
    by (simp add: jane_decode respond_simps)
qed

text \<open>
  C3, amended. Of two requests handled one after the other that share location and
  appointmentTime, the first answered 200: the second is never answered 200 and adds no
  record; it is answered 409 with the conflict message whenever it is valid and its
  query is not rejected.
\<close>

theorem replay_conflicts:
  assumes "decode eng event1 = Next data1"
    and "handler eng env1 w event1 = (r1, w1)" and "statusCode r1 = 200"
    and "decode eng event2 = Next data2"
    and "attr data2 ''location'' = attr data1 ''location''"
    and "attr data2 ''appointmentTime'' = attr data1 ''appointmentTime''"
    and "handler eng env2 w1 event2 = (r2, w2)"
  shows "statusCode r2 \<noteq> 200 \<and> items w2 = items w1 \<and>
         (valid_request eng data2 \<and> query_fault env2 = None \<longrightarrow>
            r2 = respond 409
              [(''message'', JStr ''This appointment time is already booked at this location'')])"
proof -
  from handler_created [OF assms(1-3)] obtain key i ts where
    k1: "locationTimeKey eng data1 = Inr key" and
    "items w1 = items w @ [convertEmptyValues (make_item data1 i key ts)]"
    by blast
  then have b: "list_ex (\<lambda>it. attr it ''locationTimeKey'' = JStr key) (items w1)"
    by (simp add: stored_key key_nonempty)
  from k1 locationTimeKey_cong [OF assms(5,6)] have k: "locationTimeKey eng data2 = Inr key"
    by simp
  have s: "statusCode r2 \<noteq> 200"
  proof
    assume "statusCode r2 = 200"
    from handler_created [OF assms(4,7) this] k b show False by simp
  qed
  from handler_items [OF assms(7) s] have i: "items w2 = items w1" .
  have "r2 = respond 409
      [(''message'', JStr ''This appointment time is already booked at this location'')]"
    if "valid_request eng data2" "query_fault env2 = None"
    using conflict_response [OF assms(4) that(1) k that(2) b] assms(7) by simp
  with s i show ?thesis by blast
qed

text \<open>C3, amended, on the request of the test suite sent twice.\<close>

theorem replay_conflicts_witness:
  "decode example_engine jane_event = Next jane_doe \<and>
   valid_request example_engine jane_doe \<and>
   query_fault example_env = None \<and>
   statusCode (fst (handler example_engine example_env empty_world jane_event)) = 200 \<and>
   fst (handler example_engine example_env
     (snd (handler example_engine example_env empty_world jane_event)) jane_event) =
     respond 409
       [(''message'', JStr ''This appointment time is already booked at this location'')] \<and>
   items (snd (handler example_engine example_env
     (snd (handler example_engine example_env empty_world jane_event)) jane_event)) =
     items (snd (handler example_engine example_env empty_world jane_event))"
proof -
  have q: "query_fault example_env = None"
    by (simp add: example_env_def)
  have s: "statusCode (fst (handler example_engine example_env empty_world jane_event)) = 200"
    by (simp add: jane_run respond_simps)
  from replay_conflicts [OF jane_decode prod.collapse [symmetric] s jane_decode refl refl
      prod.collapse [symmetric]] q s
  show ?thesis
    by (simp add: jane_decode jane_valid)
qed

text \<open>
  C4. A valid request whose conflict-check query, the query for its derived key, is
  rejected by the store is answered 500 with a body of exactly the fields \<^verbatim>\<open>message\<close>
  (\<^verbatim>\<open>Could not process appointment request\<close>), \<^verbatim>\<open>error\<close> and \<^verbatim>\<open>code\<close> (the rejection's
  message and code), \<^verbatim>\<open>time\<close> (the clock), \<^verbatim>\<open>tableName\<close> and \<^verbatim>\<open>params\<close> (the query's
  parameters as JSON text). The state afterwards is the state before with the query call
  logged and the clock read once: no put call, and the items as they were.
\<close>

theorem query_failure_500:
  assumes "decode eng event = Next data"
    and "valid_request eng data"
    and "locationTimeKey eng data = Inr key"
    and "fst (dynamoDb_query env w key) = Inl queryError"
  shows "handler eng env w event =
           (respond 500
              [(''message'', JStr ''Could not process appointment request''),
               (''error'', err_message queryError),
               (''code'', err_code queryError),
               (''time'', JStr (clock env (clock_reads w))),
               (''tableName'', JStr (TABLE_NAME env)),
               (''params'', JStr (json_stringify eng (getParams env key)))],
            w\<lparr>calls := calls w @ [Query key], clock_reads := Suc (clock_reads w)\<rparr>)"
proof -
  from assms(4) have "query_fault env = Some queryError"
    by (simp add: query_rejected)
  with assms(1,2) show ?thesis
    by (simp add: handler_def handler_try_def process_valid check_and_write_cases [OF assms(3)])
qed

text \<open>C4, on the rejected query of the test suite.\<close>

theorem query_failure_500_witness:
  "decode example_engine jane_event = Next jane_doe \<and>
   valid_request example_engine jane_doe \<and>
   locationTimeKey example_engine jane_doe = Inr ''Farrish Subaru#2025-04-20T15:30:00Z'' \<and>
   fst (dynamoDb_query query_down_env empty_world ''Farrish Subaru#2025-04-20T15:30:00Z'') =
     Inl \<lparr>err_message = JStr ''Query Error'', err_code = JUndefined\<rparr> \<and>
   statusCode (fst (handler example_engine query_down_env empty_world jane_event)) = 500 \<and>
   attr (body (fst (handler example_engine query_down_env empty_world jane_event))) ''message'' =
     JStr ''Could not process appointment request'' \<and>
   attr (body (fst (handler example_engine query_down_env empty_world jane_event))) ''error'' =
     JStr ''Query Error'' \<and>
   calls (snd (handler example_engine query_down_env empty_world jane_event)) =
     [Query ''Farrish Subaru#2025-04-20T15:30:00Z'']"
proof -
  have q: "fst (dynamoDb_query query_down_env empty_world ''Farrish Subaru#2025-04-20T15:30:00Z'') =
     Inl \<lparr>err_message = JStr ''Query Error'', err_code = JUndefined\<rparr>"
    by (simp add: query_rejected query_down_env_def example_env_def)
  have c: "calls empty_world = []"
    by (simp add: empty_world_def)
  from query_failure_500 [OF jane_decode jane_valid jane_key q] q c show ?thesis
    by (simp add: jane_key jane_decode jane_valid respond_simps)
qed

text \<open>
  C5. Whatever the event, the engine and the collaborators do, an invocation that answers
  with a status other than 200 leaves the items of the table as they were.
\<close>

theorem no_partial_state:
  assumes "handler eng env w event = (r, w')" and "statusCode r \<noteq> 200"
  shows "items w' = items w"
  using assms by (rule handler_items)

text \<open>C5, on the put rejected after a successful query: 500, and the table is still empty.\<close>

theorem no_partial_state_witness:
  "statusCode (fst (handler example_engine put_down_env empty_world jane_event)) = 500 \<and>
   calls (snd (handler example_engine put_down_env empty_world jane_event)) \<noteq> [] \<and>
   items (snd (handler example_engine put_down_env empty_world jane_event)) = items empty_world"
proof -
  have e: "uuid_v4 put_down_env = Inr ''test-uuid-12345''" "query_fault put_down_env = None"
    "put_fault put_down_env = Some \<lparr>err_message = JStr ''Put Error'', err_code = JUndefined\<rparr>"
    by (simp_all add: put_down_env_def example_env_def)
  have h: "handler example_engine put_down_env empty_world jane_event =
      (fst (handler example_engine put_down_env empty_world jane_event),
       snd (handler example_engine put_down_env empty_world jane_event))"
    by simp
  have s: "statusCode (fst (handler example_engine put_down_env empty_world jane_event)) = 500"
    by (simp add: handler_def handler_try_def jane_decode process_valid jane_valid
        check_and_write_cases [OF jane_key] write_appointment_cases e put_rejection_def
        empty_world_def respond_simps)
  have c: "calls (snd (handler example_engine put_down_env empty_world jane_event)) \<noteq> []"
    by (simp add: handler_def handler_try_def jane_decode process_valid jane_valid
        check_and_write_cases [OF jane_key] write_appointment_cases e put_rejection_def
        empty_world_def)
  from s have "statusCode (fst (handler example_engine put_down_env empty_world jane_event)) \<noteq> 200"
    by simp
  from no_partial_state [OF h this] s c show ?thesis
    by simp
qed

text \<open>
  C6, as stated, fails twice. The body \<^verbatim>\<open>null\<close> decodes to a payload that has none of the
  fields, reading its first field throws, and the outermost catch answers 500. And a
  payload with an empty fullName and no location is told that fullName is missing, which
  is not its first absent field.
\<close>

theorem missing_field_400_counterexample:
  "decode example_engine null_body_event = Next JNull \<and>
   first_absent (JNull :: int jv) = Some ''fullName'' \<and>
   statusCode (fst (handler example_engine example_env empty_world null_body_event)) = 500 \<and>
   attr (body (fst (handler example_engine example_env empty_world null_body_event))) ''message'' =
     JStr ''Internal server error'' \<and>
   decode example_engine blank_name_request = Next blank_name_request \<and>
   first_absent blank_name_request = Some ''location'' \<and>
   fst (handler example_engine example_env empty_world blank_name_request) =
     respond 400 [(''message'', JStr ''Missing required field: fullName'')]"
proof -
  have d: "decode example_engine null_body_event = Next JNull"
    by (simp add: decode_def null_body_event_def example_engine_def example_payloads_def
        jane_doe_def quote_str_def)
  have a: "first_absent (JNull :: int jv) = Some ''fullName''"
    by (simp add: first_absent_def requiredFields_def)
  have h: "handler example_engine example_env empty_world null_body_event =
      (respond 500
        [(''message'', JStr ''Internal server error''),
         (''error'', JStr (err_msg (null_read_error example_engine JNull ''fullName''))),
         (''stack'', JStr (err_stack (null_read_error example_engine JNull ''fullName''))),
         (''time'', JStr (clock example_env (clock_reads empty_world)))],
       empty_world\<lparr>clock_reads := Suc (clock_reads empty_world)\<rparr>)"
    by (simp add: handler_def handler_try_def d null_payload_throws read_clock_def)
  have d2: "decode example_engine blank_name_request = Next blank_name_request"
    by (simp add: blank_name_request_def decode_direct)
  have a2: "first_absent blank_name_request = Some ''location''"
    by (simp add: first_absent_def requiredFields_def blank_name_request_def)
  have f2: "first_falsy example_engine blank_name_request = Some ''fullName''"
    by (simp add: first_falsy_def requiredFields_def blank_name_request_def)
  have h2: "handler example_engine example_env empty_world blank_name_request =
     (respond 400 [(''message'', JStr ''Missing required field: fullName'')], empty_world)"
    using missing_field_response [OF d2 _ _ f2] by (simp add: blank_name_request_def)
  from d a h d2 a2 h2 show ?thesis
    by (simp add: respond_simps)
qed

text \<open>
  C6, amended. A decoded payload other than \<^verbatim>\<open>null\<close> and \<^verbatim>\<open>undefined\<close> that lacks at least
  one required field is answered 400 with \<^verbatim>\<open>Missing required field: X\<close>, where \<open>X\<close> is the
  first required field that is absent or falsy; \<open>X\<close> is the first absent field when the
  fields before that one are all truthy. The state is untouched: no store call.
\<close>

theorem missing_field_400:
  assumes "decode eng event = Next data"
    and "data \<noteq> JNull" and "data \<noteq> JUndefined"
    and "\<exists>f \<in> set requiredFields. attr data f = JUndefined"
  shows "\<exists>x. first_falsy eng data = Some x \<and>
           handler eng env w event =
             (respond 400 [(''message'', JStr (''Missing required field: '' @ x))], w) \<and>
           ((\<forall>g \<in> set (takeWhile (\<lambda>g. attr data g \<noteq> JUndefined) requiredFields).
               truthy eng (attr data g)) \<longrightarrow> first_absent data = Some x)"
proof -
  from assms(4) obtain f where f: "f \<in> set requiredFields" "\<not> truthy eng (attr data f)"
    by auto
  then obtain x where x: "first_falsy eng data = Some x"
    unfolding first_falsy_def using find_some_exists [of f requiredFields "\<lambda>f. \<not> truthy eng (attr data f)"]
    by blast
  have "first_falsy eng data = first_absent data"
    if "\<forall>g \<in> set (takeWhile (\<lambda>g. attr data g \<noteq> JUndefined) requiredFields). truthy eng (attr data g)"
    unfolding first_falsy_def first_absent_def
    using assms(4) that
    by (intro find_agree) auto
  with x missing_field_response [OF assms(1-3) x] show ?thesis
    by auto
qed

text \<open>C6, amended, on a request that has a fullName only.\<close>

theorem missing_field_400_witness:
  "decode example_engine no_location_request = Next no_location_request \<and>
   list_ex (\<lambda>f. attr no_location_request f = JUndefined) requiredFields \<and>
   first_absent no_location_request = Some ''location'' \<and>
   handler example_engine example_env empty_world no_location_request =
     (respond 400 [(''message'', JStr ''Missing required field: location'')], empty_world)"
proof -
  have d: "decode example_engine no_location_request = Next no_location_request"
    by (simp add: no_location_request_def decode_direct)
  have n: "no_location_request \<noteq> JNull" "no_location_request \<noteq> JUndefined"
    by (simp_all add: no_location_request_def)
  have m: "\<exists>f \<in> set requiredFields. attr no_location_request f = JUndefined"
    by (simp add: requiredFields_def no_location_request_def)
  have t: "\<forall>g \<in> set (takeWhile (\<lambda>g. attr no_location_request g \<noteq> JUndefined) requiredFields).
               truthy example_engine (attr no_location_request g)"
    by (simp add: requiredFields_def no_location_request_def)
  have a: "first_absent no_location_request = Some ''location''"
    by (simp add: first_absent_def requiredFields_def no_location_request_def)
  from missing_field_400 [OF d n m, of example_env empty_world] t a d m show ?thesis
    by (auto simp: list_ex_iff)
qed

text \<open>
  C7, as stated, fails: a request whose fullName is the number 5 and whose car is an
  empty array passes validation, and the record is written with these values, which are
  not non-empty strings.
\<close>

theorem persisted_fields_counterexample:
  "decode example_engine odd_request = Next odd_request \<and>
   statusCode (fst (handler example_engine example_env empty_world odd_request)) = 200 \<and>
   map (\<lambda>it. attr it ''fullName'')
     (items (snd (handler example_engine example_env empty_world odd_request))) = [JNum 5] \<and>
   map (\<lambda>it. attr it ''car'')
     (items (snd (handler example_engine example_env empty_world odd_request))) = [JArr []]"
proof -
  have d: "decode example_engine odd_request = Next odd_request"
    by (simp add: odd_request_def decode_direct)
  have v: "valid_request example_engine odd_request"
    by (simp add: valid_request_def requiredFields_def odd_request_def example_engine_def)
  have k: "locationTimeKey example_engine odd_request =
      Inr ''Farrish Subaru#2025-04-20T15:30:00Z''"
    by (simp add: locationTimeKey_def odd_request_def)
  have e: "uuid_v4 example_env = Inr ''test-uuid-12345''" "query_fault example_env = None"
    "clock example_env 0 = ''2025-04-01T00:00:00.000Z''"
    by (simp_all add: example_env_def)
  have p: "put_rejection example_env []
     (make_item odd_request ''test-uuid-12345'' ''Farrish Subaru#2025-04-20T15:30:00Z''
        ''2025-04-01T00:00:00.000Z'') = None"
    by (simp add: put_rejection_def key_schema_ok_def make_item_def example_env_def
        odd_request_def)
  have "handler example_engine example_env empty_world odd_request =
     (respond 200
        [(''message'', JStr ''Appointment created successfully''),
         (''appointmentId'', JStr ''test-uuid-12345''),
         (''appointment'', make_item odd_request ''test-uuid-12345''
            ''Farrish Subaru#2025-04-20T15:30:00Z'' ''2025-04-01T00:00:00.000Z'')],
      \<lparr>items = [convertEmptyValues (make_item odd_request ''test-uuid-12345''
            ''Farrish Subaru#2025-04-20T15:30:00Z'' ''2025-04-01T00:00:00.000Z'')],
       calls = [Query ''Farrish Subaru#2025-04-20T15:30:00Z'',
                Put (make_item odd_request ''test-uuid-12345''
                  ''Farrish Subaru#2025-04-20T15:30:00Z'' ''2025-04-01T00:00:00.000Z'')],
       clock_reads = 1\<rparr>)"
    by (simp add: handler_def handler_try_def d process_valid v
        check_and_write_cases [OF k] write_appointment_cases e p empty_world_def)
  with d show ?thesis
    by (simp add: respond_simps make_item_def odd_request_def)
qed

text \<open>
  C7, amended. Every item the handler puts carries the five required fields of the
  decoded payload unchanged, each of them truthy, so a field that is a string is a
  non-empty one; its services is a non-empty array and its appointmentTime parses as a
  date.
\<close>

theorem persisted_fields:
  assumes "handler eng env w event = (r, w')"
    and "Put item \<in> set (drop (length (calls w)) (calls w'))"
  shows "\<exists>data. decode eng event = Next data \<and>
           (\<forall>f \<in> set requiredFields.
              attr item f = attr data f \<and> truthy eng (attr item f) \<and>
              (\<forall>s. attr item f = JStr s \<longrightarrow> s \<noteq> [])) \<and>
           isArray (attr item ''services'') \<and> 0 < array_length (attr item ''services'') \<and>
           date_valid eng (attr item ''appointmentTime'') = Inr True"
proof -
  from handler_calls [OF assms(1)] assms(2)
  obtain data key i ts where d: "decode eng event = Next data" "valid_request eng data"
    "item = make_item data i key ts"
    by auto
  have s: "''services'' \<in> set requiredFields" "''appointmentTime'' \<in> set requiredFields"
    by (simp_all add: requiredFields_def)
  have "attr item f = attr data f \<and> truthy eng (attr item f) \<and>
              (\<forall>s. attr item f = JStr s \<longrightarrow> s \<noteq> [])" if "f \<in> set requiredFields" for f
  proof -
    from that d(2) have "truthy eng (attr data f)"
      by (simp add: valid_request_def)
    with that d(3) show ?thesis
      by (auto simp: make_item_required)
  qed
  moreover from d(2,3) have "isArray (attr item ''services'')"
    "0 < array_length (attr item ''services'')"
    "date_valid eng (attr item ''appointmentTime'') = Inr True"
    by (simp_all add: make_item_required [OF s(1)] make_item_required [OF s(2)] valid_request_def)
  ultimately show ?thesis
    using d(1) by blast
qed

text \<open>C7, amended, on the put for the request of the test suite.\<close>

theorem persisted_fields_witness:
  "calls empty_world = [] \<and>
   calls (snd (handler example_engine example_env empty_world jane_event)) =
     [Query ''Farrish Subaru#2025-04-20T15:30:00Z'',
      Put (make_item jane_doe ''test-uuid-12345''
             ''Farrish Subaru#2025-04-20T15:30:00Z'' ''2025-04-01T00:00:00.000Z'')] \<and>
   list_all (\<lambda>f. truthy example_engine
       (attr (make_item jane_doe ''test-uuid-12345''
             ''Farrish Subaru#2025-04-20T15:30:00Z'' ''2025-04-01T00:00:00.000Z'') f))
     requiredFields \<and>
   isArray (attr (make_item jane_doe ''test-uuid-12345''
             ''Farrish Subaru#2025-04-20T15:30:00Z'' ''2025-04-01T00:00:00.000Z'') ''services'')"
proof -
  let ?it = "make_item jane_doe ''test-uuid-12345''
             ''Farrish Subaru#2025-04-20T15:30:00Z'' ''2025-04-01T00:00:00.000Z''"
  have c: "calls empty_world = []"
    by (simp add: empty_world_def)
  have p: "Put ?it \<in> set (drop (length (calls empty_world))
      (calls (snd (handler example_engine example_env empty_world jane_event))))"
    by (simp add: jane_run c)
  from persisted_fields [OF prod.collapse [symmetric] p] c show ?thesis
    by (auto simp: jane_run list_all_iff)
qed



text \<open>
  C9, as stated, fails: in a payload whose location is the empty string and which has no
  fullName, the field reported as missing is fullName, not the falsy location.
\<close>

theorem falsy_field_400_counterexample:
  "decode example_engine blank_location_request = Next blank_location_request \<and>
   attr blank_location_request ''location'' = JStr [] \<and>
   \<not> truthy example_engine (JStr []) \<and>
   handler example_engine example_env empty_world blank_location_request =
     (respond 400 [(''message'', JStr ''Missing required field: fullName'')], empty_world) \<and>
   fst (handler example_engine example_env empty_world blank_location_request) \<noteq>
     respond 400 [(''message'', JStr ''Missing required field: location'')]"
proof -
  have d: "decode example_engine blank_location_request = Next blank_location_request"
    by (simp add: blank_location_request_def decode_direct)
  have f: "first_falsy example_engine blank_location_request = Some ''fullName''"
    by (simp add: first_falsy_def requiredFields_def blank_location_request_def)
  have h: "handler example_engine example_env empty_world blank_location_request =
     (respond 400 [(''message'', JStr ''Missing required field: fullName'')], empty_world)"
    using missing_field_response [OF d _ _ f] by (simp add: blank_location_request_def)
  have a: "attr blank_location_request ''location'' = JStr []"
    by (simp add: blank_location_request_def)
  from d h a show ?thesis
    by (simp add: respond_def)
qed

text \<open>
  C9, amended. A decoded payload that has a required field \<open>f\<close> bound to a falsy value is
  answered 400 with \<^verbatim>\<open>Missing required field: X\<close>, \<open>X\<close> being the first required field, in
  the order of the list, that is absent or falsy; \<open>X\<close> is \<open>f\<close> itself when the fields before
  \<open>f\<close> are truthy. So a field that is present with a falsy value is reported as a missing
  one, unless an earlier field is reported.
\<close>

theorem falsy_field_400:
  assumes "decode eng event = Next data"
    and "f \<in> set requiredFields"
    and "data = JObj kvs" and "map_of kvs f = Some v" and "\<not> truthy eng v"
  shows "\<exists>x. first_falsy eng data = Some x \<and>
           handler eng env w event =
             (respond 400 [(''message'', JStr (''Missing required field: '' @ x))], w) \<and>
           ((\<forall>g \<in> set (takeWhile (\<lambda>g. g \<noteq> f) requiredFields). truthy eng (attr data g))
              \<longrightarrow> x = f)"
proof -
  from assms(3-5) have nf: "\<not> truthy eng (attr data f)"
    by simp
  with assms(2) obtain x where x: "first_falsy eng data = Some x"
    unfolding first_falsy_def using find_some_exists [of f requiredFields "\<lambda>f. \<not> truthy eng (attr data f)"]
    by blast
  have "first_falsy eng data = Some f"
    if "\<forall>g \<in> set (takeWhile (\<lambda>g. g \<noteq> f) requiredFields). truthy eng (attr data g)"
    unfolding first_falsy_def using assms(2) nf that
    by (intro find_first_is) auto
  moreover from assms(3) have "data \<noteq> JNull" "data \<noteq> JUndefined"
    by simp_all
  ultimately show ?thesis
    using x missing_field_response [OF assms(1) _ _ x] by auto
qed

text \<open>C9, amended, on a request whose fullName is the empty string.\<close>

theorem falsy_field_400_witness:
  "decode example_engine blank_name_request = Next blank_name_request \<and>
   attr blank_name_request ''fullName'' = JStr [] \<and>
   \<not> truthy example_engine (JStr []) \<and>
   handler example_engine example_env empty_world blank_name_request =
     (respond 400 [(''message'', JStr ''Missing required field: fullName'')], empty_world)"
proof -
  have d: "decode example_engine blank_name_request = Next blank_name_request"
    by (simp add: blank_name_request_def decode_direct)
  have m: "map_of [(''fullName'', JStr ''''),
           (''appointmentTime'', JStr ''2025-04-20T15:30:00Z''),
           (''car'', JStr ''Subaru Outback''),
           (''services'', JArr [JStr ''Oil Change''])] ''fullName'' = Some (JStr [] :: int jv)"
    by simp
  have t: "\<not> truthy example_engine (JStr [])"
    by simp
  have r: "''fullName'' \<in> set requiredFields"
    by (simp add: requiredFields_def)
  from falsy_field_400 [OF d r blank_name_request_def m t, of example_env empty_world] d t
  show ?thesis
    by (auto simp: requiredFields_def blank_name_request_def)
qed

text \<open>
  C10. For every event, engine, environment and state, the handler returns a response
  with a status among 200, 400, 409 and 500, the one header
  \<^verbatim>\<open>Content-Type: application/json\<close>, and an object as the value it stringifies into the
  body; and whatever the try block throws, the response is 500 with the message
  \<^verbatim>\<open>Internal server error\<close> and the error's message and stack.
\<close>

theorem always_responds:
  "statusCode (fst (handler eng env w event)) \<in> {200, 400, 409, 500} \<and>
   headers (fst (handler eng env w event)) = [(''Content-Type'', ''application/json'')] \<and>
   isObject (body (fst (handler eng env w event))) \<and>
   (\<forall>error w1. handler_try eng env w event = (Inl error, w1) \<longrightarrow>
      fst (handler eng env w event) =
        respond 500
          [(''message'', JStr ''Internal server error''),
           (''error'', JStr (err_msg error)),
           (''stack'', JStr (err_stack error)),
           (''time'', JStr (clock env (clock_reads w1)))])"
  using handler_well_formed [of eng env w event]
  by (auto simp: well_formed_def handler_def read_clock_def)

text \<open>C10, on the event \<^verbatim>\<open>null\<close>, whose \<^verbatim>\<open>body\<close> cannot be read.\<close>

theorem always_responds_witness:
  "handler_try example_engine example_env empty_world JNull =
     (Inl (null_read_error example_engine JNull ''body''), empty_world) \<and>
   statusCode (fst (handler example_engine example_env empty_world JNull)) = 500 \<and>
   headers (fst (handler example_engine example_env empty_world JNull)) =
     [(''Content-Type'', ''application/json'')] \<and>
   attr (body (fst (handler example_engine example_env empty_world JNull))) ''message'' =
     JStr ''Internal server error''"
proof -
  have t: "handler_try example_engine example_env empty_world JNull =
     (Inl (null_read_error example_engine JNull ''body''), empty_world)"
    by (simp add: handler_try_def decode_def)
  from always_responds [of example_engine example_env empty_world JNull] t show ?thesis
    by (simp add: respond_simps)
qed

end
